theory Spec2Isabelle
  imports Complex_Main "HOL-Library.AList"
begin

section \<open>Exceptions\<close>

text \<open>
  Every \<^verbatim>\<open>raise\<close> of the sources is a value: the exception class with its message.
\<close>

datatype error =
    ValueError string
  | TypeError string
  | NotImplementedError string
  | AttributeError string
  | IndexError
  | KeyError
  | AssertionError

section \<open>Normal form games (\<^verbatim>\<open>sage/game_theory/normal_form_game.py\<close>)\<close>

text \<open>
  A matrix is the list of its rows. \<^verbatim>\<open>len(m.rows())\<close> is the number of rows,
  \<^verbatim>\<open>len(m.columns())\<close> the length of a row. The truth value of a matrix is that it has a
  non-zero entry. A keyword argument left at its default \<^verbatim>\<open>False\<close> is \<open>None\<close>.
\<close>

type_synonym matrix = "int list list"

definition nrows :: "matrix \<Rightarrow> nat" where
  "nrows m = length m"

definition ncolumns :: "matrix \<Rightarrow> nat" where
  "ncolumns m = (case m of [] \<Rightarrow> 0 | r # _ \<Rightarrow> length r)"

definition matrix_nonzero :: "matrix \<Rightarrow> bool" where
  "matrix_nonzero m = (\<exists>r \<in> set m. \<exists>x \<in> set r. x \<noteq> 0)"

definition truthy :: "matrix option \<Rightarrow> bool" where
  "truthy a = (case a of None \<Rightarrow> False | Some m \<Rightarrow> matrix_nonzero m)"

definition neg_matrix :: "matrix \<Rightarrow> matrix" where
  "neg_matrix m = map (map uminus) m"

definition entry :: "matrix \<Rightarrow> nat \<times> nat \<Rightarrow> error + int" where
  "entry m k = (case k of (i, j) \<Rightarrow>
     if i < length m \<and> j < length (m ! i) then Inr (m ! i ! j) else Inl IndexError)"

text \<open>
  The strategic table of the solver library: the number of strategies of each player and the
  payoff of each player in each cell. \<^verbatim>\<open>Game.new_table(dims)\<close> is the table of zeros.
  The attributes \<^verbatim>\<open>matrix1\<close> and \<^verbatim>\<open>matrix2\<close> exist once \<^verbatim>\<open>__init__\<close> has set them.
\<close>

record game =
  dims :: "nat list"
  payoff :: "nat \<times> nat \<Rightarrow> nat \<Rightarrow> int"
  matrix1 :: "matrix option"
  matrix2 :: "matrix option"

definition new_table :: "nat list \<Rightarrow> game" where
  "new_table ds = \<lparr>dims = ds, payoff = (\<lambda>k p. 0), matrix1 = None, matrix2 = None\<rparr>"

definition players :: "game \<Rightarrow> nat list" where
  "players g = [0 ..< length (dims g)]"

definition in_table :: "game \<Rightarrow> nat \<times> nat \<Rightarrow> bool" where
  "in_table g k = (case k of (i, j) \<Rightarrow>
     length (dims g) = 2 \<and> i < dims g ! 0 \<and> j < dims g ! 1)"

definition set_payoff :: "game \<Rightarrow> nat \<times> nat \<Rightarrow> nat \<Rightarrow> int \<Rightarrow> error + game" where
  "set_payoff g k p v =
     (if in_table g k then Inr (g\<lparr>payoff := (payoff g)(k := (payoff g k)(p := v))\<rparr>)
      else Inl IndexError)"

text \<open>
  \<^verbatim>\<open>__new__(NormalFormGame, matrix1=False, matrix2=False, game=False)\<close>: the table is
  made from the row counts of both matrices as soon as \<^verbatim>\<open>matrix1\<close> is true;
  \<^verbatim>\<open>matrix2.rows()\<close> on the default \<^verbatim>\<open>False\<close> is an attribute error.
\<close>

definition NormalFormGame_new ::
    "matrix option \<Rightarrow> matrix option \<Rightarrow> game option \<Rightarrow> error + game" where
  "NormalFormGame_new m1 m2 gm =
     (if truthy m1 \<and> gm \<noteq> None then Inl (ValueError ''Can't input both a matrix and a game.'')
      else if truthy m1 then
        (case m2 of
           None \<Rightarrow> Inl (AttributeError ''bool object has no attribute rows'')
         | Some b \<Rightarrow> Inr (new_table [nrows (the m1), nrows b]))
      else (case gm of Some g \<Rightarrow> Inr g | None \<Rightarrow> Inr (new_table [])))"

text \<open>The body of the loop \<^verbatim>\<open>for k in product(p1_strats, p2_strats)\<close> of \<^verbatim>\<open>__init__\<close>.\<close>

definition fill_cell :: "matrix \<Rightarrow> matrix \<Rightarrow> game \<Rightarrow> nat \<times> nat \<Rightarrow> error + game" where
  "fill_cell a b g k =
     (case entry a k of Inl e \<Rightarrow> Inl e | Inr x \<Rightarrow>
        (case set_payoff g k 0 x of Inl e \<Rightarrow> Inl e | Inr g1 \<Rightarrow>
           (case entry b k of Inl e \<Rightarrow> Inl e | Inr y \<Rightarrow> set_payoff g1 k 1 y)))"

fun fill_cells :: "matrix \<Rightarrow> matrix \<Rightarrow> game \<Rightarrow> (nat \<times> nat) list \<Rightarrow> error + game" where
  "fill_cells a b g [] = Inr g"
| "fill_cells a b g (k # ks) =
     (case fill_cell a b g k of Inl e \<Rightarrow> Inl e | Inr g1 \<Rightarrow> fill_cells a b g1 ks)"

text \<open>
  \<^verbatim>\<open>__init__(self, matrix1=False, matrix2=False, game=False)\<close>. \<^verbatim>\<open>to_matrix\<close> is the
  stub that returns at once.
\<close>

definition to_matrix :: "game \<Rightarrow> game" where
  "to_matrix g = g"

definition NormalFormGame_init ::
    "game \<Rightarrow> matrix option \<Rightarrow> matrix option \<Rightarrow> game option \<Rightarrow> error + game" where
  "NormalFormGame_init self m1 m2 gm =
     (if \<not> truthy m1 then Inr (to_matrix self)
      else
        (let a = the m1;
             b = (if \<not> truthy m2 then neg_matrix a else the m2);
             g = self\<lparr>matrix1 := Some a, matrix2 := Some b\<rparr>
         in fill_cells a b g (List.product [0 ..< nrows a] [0 ..< ncolumns a])))"

text \<open>The call \<^verbatim>\<open>NormalFormGame(...)\<close>: \<^verbatim>\<open>__new__\<close>, then \<^verbatim>\<open>__init__\<close> on its result.\<close>

definition NormalFormGame ::
    "matrix option \<Rightarrow> matrix option \<Rightarrow> game option \<Rightarrow> error + game" where
  "NormalFormGame m1 m2 gm =
     (case NormalFormGame_new m1 m2 gm of
        Inl e \<Rightarrow> Inl e
      | Inr g \<Rightarrow> NormalFormGame_init g m1 m2 gm)"

text \<open>
  \<^verbatim>\<open>obtain_Nash(self, algorithm="LCP")\<close>. The external solver and the package test are
  parameters; a path that reaches the end of the body returns \<^verbatim>\<open>None\<close>.
\<close>

definition not_implemented_players :: string where
  "not_implemented_players =
     ''Nash equilibrium for games with more than 2 players have not been implemented yet.'' @
     ''Please see the gambit website [LINK] that has a variety of available algorithms.''"

definition obtain_Nash ::
    "(game \<Rightarrow> error + 'p list) \<Rightarrow> (string \<Rightarrow> bool) \<Rightarrow> game \<Rightarrow> string option
      \<Rightarrow> error + 'p list option" where
  "obtain_Nash solve is_package_installed self algorithm =
     (let alg = (case algorithm of None \<Rightarrow> ''LCP'' | Some a \<Rightarrow> a) in
      if alg = ''LCP'' then
        (if length (players self) > 2 then Inl (NotImplementedError not_implemented_players)
         else (case solve self of Inl e \<Rightarrow> Inl e | Inr eqs \<Rightarrow> Inr (Some eqs)))
      else if alg = ''lrs'' \<and> \<not> is_package_installed ''lrs''
        then Inl (NotImplementedError ''lrs is not installed'')
      else Inr None)"

section \<open>Fans, cones and toric varieties\<close>

text \<open>
  The lattice and fan library is outside the sources; its values are taken by their data.
  A ray is its primitive generator, a cone carries its rays and, as a cone of a fan, their
  indices in the fan (\<^verbatim>\<open>ambient_ray_indices\<close>), and a fan is the list of its rays with
  its generating cones. Fans are compared structurally.
\<close>

type_synonym ray = "int list"

record cone =
  cone_rays :: "ray list"
  ambient_ray_indices :: "nat list"

record fan =
  rays :: "ray list"
  generating_cones :: "cone list"

definition nrays :: "fan \<Rightarrow> nat" where
  "nrays F = length (rays F)"


record fan_morphism =
  fm_matrix :: matrix
  domain_fan :: fan
  codomain_fan :: fan

record toric_variety =
  tv_fan :: fan

definition ToricVariety :: "fan \<Rightarrow> toric_variety" where
  "ToricVariety F = \<lparr>tv_fan = F\<rparr>"

text \<open>A Hom-set is its domain and its codomain.\<close>

record homset =
  hom_domain :: toric_variety
  hom_codomain :: toric_variety

definition Hom :: "toric_variety \<Rightarrow> toric_variety \<Rightarrow> homset" where
  "Hom X Y = \<lparr>hom_domain = X, hom_codomain = Y\<rparr>"

section \<open>Toric morphisms (\<^verbatim>\<open>sage/schemes/toric/morphism.py\<close>)\<close>

subsection \<open>\<^verbatim>\<open>SchemeMorphism_fan_toric_variety\<close>\<close>

record fan_toric_morphism =
  parent :: homset
  the_fan_morphism :: fan_morphism

definition domain :: "fan_toric_morphism \<Rightarrow> toric_variety" where
  "domain f = hom_domain (parent f)"

definition codomain :: "fan_toric_morphism \<Rightarrow> toric_variety" where
  "codomain f = hom_codomain (parent f)"

text \<open>\<^verbatim>\<open>__init__(self, parent, fan_morphism, check=True)\<close>\<close>

definition SchemeMorphism_fan_toric_variety ::
    "homset \<Rightarrow> fan_morphism \<Rightarrow> bool \<Rightarrow> error + fan_toric_morphism" where
  "SchemeMorphism_fan_toric_variety par fm check =
     (if check \<and> tv_fan (hom_domain par) \<noteq> domain_fan fm
        then Inl (ValueError ''The fan morphism domain must be the fan of the domain.'')
      else if check \<and> tv_fan (hom_codomain par) \<noteq> codomain_fan fm
        then Inl (ValueError ''The fan morphism codomain must be the fan of the codomain.'')
      else Inr \<lparr>parent = par, the_fan_morphism = fm\<rparr>)"

text \<open>\<^verbatim>\<open>fan_morphism(self)\<close> returns the stored attribute.\<close>

definition fan_morphism :: "fan_toric_morphism \<Rightarrow> fan_morphism" where
  "fan_morphism self = the_fan_morphism self"

definition is_ValueError :: "error + 'a \<Rightarrow> bool" where
  "is_ValueError r = (case r of Inl (ValueError m) \<Rightarrow> True | _ \<Rightarrow> False)"

subsection \<open>Comparison\<close>

text \<open>
  Modelled from the spec: the comparison of the library's values, which the sources call
  through \<^verbatim>\<open>cmp\<close> and which is outside them. The spec has equality structural (same
  matrix, same fans); \<^verbatim>\<open>cmp\<close> is three-valued and orders integers by size and lists
  as Python does: by the first position that differs, a proper prefix first.
\<close>

definition cmp_int :: "int \<Rightarrow> int \<Rightarrow> int" where
  "cmp_int a b = (if a < b then - 1 else if a = b then 0 else 1)"

definition cmp_nat :: "nat \<Rightarrow> nat \<Rightarrow> int" where
  "cmp_nat a b = cmp_int (int a) (int b)"

fun cmp_list :: "('a \<Rightarrow> 'a \<Rightarrow> int) \<Rightarrow> 'a list \<Rightarrow> 'a list \<Rightarrow> int" where
  "cmp_list c [] [] = 0"
| "cmp_list c [] (y # ys) = - 1"
| "cmp_list c (x # xs) [] = 1"
| "cmp_list c (x # xs) (y # ys) = (if c x y = 0 then cmp_list c xs ys else c x y)"

definition cmp_then :: "int \<Rightarrow> int \<Rightarrow> int" where
  "cmp_then c d = (if c = 0 then d else c)"

definition cmp_matrix :: "matrix \<Rightarrow> matrix \<Rightarrow> int" where
  "cmp_matrix = cmp_list (cmp_list cmp_int)"

definition cmp_cone :: "cone \<Rightarrow> cone \<Rightarrow> int" where
  "cmp_cone c d =
     cmp_then (cmp_matrix (cone_rays c) (cone_rays d))
              (cmp_list cmp_nat (ambient_ray_indices c) (ambient_ray_indices d))"

definition cmp_fan :: "fan \<Rightarrow> fan \<Rightarrow> int" where
  "cmp_fan F G =
     cmp_then (cmp_matrix (rays F) (rays G))
              (cmp_list cmp_cone (generating_cones F) (generating_cones G))"

definition cmp_fan_morphism :: "fan_morphism \<Rightarrow> fan_morphism \<Rightarrow> int" where
  "cmp_fan_morphism f g =
     cmp_then (cmp_fan (domain_fan f) (domain_fan g))
       (cmp_then (cmp_fan (codomain_fan f) (codomain_fan g))
                 (cmp_matrix (fm_matrix f) (fm_matrix g)))"

definition cmp_variety :: "toric_variety \<Rightarrow> toric_variety \<Rightarrow> int" where
  "cmp_variety X Y = cmp_fan (tv_fan X) (tv_fan Y)"

text \<open>
  The right operand of \<^verbatim>\<open>__cmp__\<close> is anything: a fan-based toric morphism, or an object
  of a class that does not derive from \<^verbatim>\<open>SchemeMorphism_fan_toric_variety\<close>. Two classes
  compare equal when they are the same class and by their addresses otherwise; the address
  of a class is a parameter.
\<close>

datatype py_class = Fan_toric_class | Other_class nat

datatype py_object = Fan_toric_object fan_toric_morphism | Other_object nat

fun type_of :: "py_object \<Rightarrow> py_class" where
  "type_of (Fan_toric_object f) = Fan_toric_class"
| "type_of (Other_object k) = Other_class k"

definition cmp_type :: "(py_class \<Rightarrow> nat) \<Rightarrow> py_class \<Rightarrow> py_class \<Rightarrow> int" where
  "cmp_type addr a b = (if a = b then 0 else if addr a < addr b then - 1 else 1)"

text \<open>
  \<^verbatim>\<open>__cmp__(self, right)\<close>: the lists \<^verbatim>\<open>[domain, codomain, fan_morphism]\<close> are
  compared when \<^verbatim>\<open>right\<close> is an instance of the class, the classes otherwise.
\<close>

definition fan_toric_cmp :: "(py_class \<Rightarrow> nat) \<Rightarrow> fan_toric_morphism \<Rightarrow> py_object \<Rightarrow> int" where
  "fan_toric_cmp addr self right =
     (case right of
        Fan_toric_object r \<Rightarrow>
          cmp_then (cmp_variety (domain self) (domain r))
            (cmp_then (cmp_variety (codomain self) (codomain r))
                      (cmp_fan_morphism (fan_morphism self) (fan_morphism r)))
      | Other_object k \<Rightarrow> cmp_type addr Fan_toric_class (type_of right))"

subsection \<open>\<^verbatim>\<open>SchemeMorphism_polynomial_toric_variety\<close>\<close>

text \<open>
  An element of the coordinate ring, or of its fraction field, as far as this module builds
  one: a sum of terms, each a coefficient with the exponent of every generator. It is a
  polynomial when no exponent is negative. The grading of the ring is a parameter \<open>deg\<close>,
  the degree of an exponent vector; a sum is homogeneous when its terms have one degree.
\<close>

type_synonym poly = "(int \<times> int list) list"


definition is_homogeneous :: "(int list \<Rightarrow> 'g) \<Rightarrow> poly \<Rightarrow> bool" where
  "is_homogeneous deg p = (\<forall>t \<in> set p. \<forall>u \<in> set p. deg (snd t) = deg (snd u))"

definition poly_one :: "nat \<Rightarrow> poly" where
  "poly_one n = [(1, replicate n 0)]"

definition gen_pow :: "nat \<Rightarrow> nat \<Rightarrow> int \<Rightarrow> poly" where
  "gen_pow n k d = [(1, (replicate n 0)[k := d])]"

definition poly_mul :: "poly \<Rightarrow> poly \<Rightarrow> poly" where
  "poly_mul p q =
     concat (map (\<lambda>t. map (\<lambda>u. (fst t * fst u, map2 (+) (snd t) (snd u))) q) p)"

record polynomial_toric_morphism =
  poly_parent :: homset
  defining_polynomials :: "poly list"

text \<open>
  \<^verbatim>\<open>__init__(self, parent, polynomials, check=True)\<close>: after the constructor of the base
  class, which is outside the sources, every defining polynomial is checked to be
  homogeneous. The message of the error names the polynomial; its print is left out.
\<close>

definition SchemeMorphism_polynomial_toric_variety ::
    "(int list \<Rightarrow> 'g) \<Rightarrow> homset \<Rightarrow> poly list \<Rightarrow> bool \<Rightarrow> error + polynomial_toric_morphism" where
  "SchemeMorphism_polynomial_toric_variety deg par polynomials check =
     (if check \<and> (\<exists>p \<in> set polynomials. \<not> is_homogeneous deg p)
        then Inl (ValueError ''is not homogeneous!'')
      else Inr \<lparr>poly_parent = par, defining_polynomials = polynomials\<rparr>)"

text \<open>\<^verbatim>\<open>as_fan_morphism(self)\<close> has the one statement \<^verbatim>\<open>raise NotImplementedError(...)\<close>.\<close>

definition as_fan_morphism :: "polynomial_toric_morphism \<Rightarrow> error + fan_toric_morphism" where
  "as_fan_morphism self =
     Inl (NotImplementedError
            ''expressing toric morphisms as fan morphisms is not implemented yet!'')"

subsection \<open>The lattice and fan library\<close>

text \<open>
  The operations of the library that the module calls and that are outside the sources are
  the fields of a record, so that every result holds for whatever the library computes:
  the image cone of a cone under a fan morphism, the rational solution of \<open>x * A = b\<close>
  (\<^verbatim>\<open>solve_left\<close>, which raises when there is none), the factorization of a fan morphism and
  its three tests, the primitive preimage cones of a cone, whether the cone generated by a
  set of rays is a cone of a fan, the kernel fan with the echelon coordinates and the
  echelonized basis matrix of its lattice, the embedding of a cone into a fan, and for
  \<^verbatim>\<open>_make_fiber\<close> the generating cones of the relative star of a cone, the projection of
  a ray to the quotient of the saturated sublattice by the sublattice of the defining cone,
  and the fan generated by cones that are given by generators.
\<close>

record library =
  image_cone :: "fan_morphism \<Rightarrow> cone \<Rightarrow> cone"
  solve_left :: "matrix \<Rightarrow> int list \<Rightarrow> error + rat list"
  fm_factor :: "fan_morphism \<Rightarrow> fan_morphism \<times> fan_morphism \<times> fan_morphism"
  fm_is_injective :: "fan_morphism \<Rightarrow> bool"
  fm_is_birational :: "fan_morphism \<Rightarrow> bool"
  fm_is_surjective :: "fan_morphism \<Rightarrow> bool"
  primitive_preimage_cones :: "fan_morphism \<Rightarrow> cone \<Rightarrow> cone list"
  contains_cone :: "fan \<Rightarrow> ray set \<Rightarrow> bool"
  kernel_fan :: "fan_morphism \<Rightarrow> fan"
  echelon_coordinates :: "fan_morphism \<Rightarrow> ray \<Rightarrow> ray"
  echelonized_basis_matrix :: "fan_morphism \<Rightarrow> matrix"
  embed :: "fan \<Rightarrow> cone \<Rightarrow> error + cone"
  relative_star_generators :: "fan_morphism \<Rightarrow> cone \<Rightarrow> cone list"
  fiber_projection :: "fan_morphism \<Rightarrow> cone \<Rightarrow> cone \<Rightarrow> ray \<Rightarrow> ray"
  Fan_of_cones :: "ray list list \<Rightarrow> fan"

text \<open>
  \<^verbatim>\<open>fan(1)\<close>, the one-dimensional cones of a fan: one for each ray, in the order of the
  rays. \<^verbatim>\<open>rho.ray(0)\<close> is the first ray of a cone. A fan morphism maps a lattice point
  \<open>v\<close> to the product \<open>v * M\<close> with its matrix.
\<close>

definition one_cones :: "fan \<Rightarrow> cone list" where
  "one_cones F = map (\<lambda>k. \<lparr>cone_rays = [rays F ! k], ambient_ray_indices = [k]\<rparr>) [0 ..< nrays F]"

definition ray0 :: "cone \<Rightarrow> error + ray" where
  "ray0 c = (case cone_rays c of [] \<Rightarrow> Inl IndexError | r # _ \<Rightarrow> Inr r)"

definition vec_mat :: "int list \<Rightarrow> matrix \<Rightarrow> int list" where
  "vec_mat v m = map (\<lambda>j. sum_list (map (\<lambda>(x, row). x * row ! j) (zip v m))) [0 ..< ncolumns m]"

subsection \<open>\<^verbatim>\<open>as_polynomial_map\<close> of a fan-based toric morphism\<close>

definition cannot_be_written :: string where
  "cannot_be_written = ''The fan morphism cannot be written in homogeneous polynomials.''"

text \<open>
  The head of the outer loop: \<^verbatim>\<open>sigma = phi.image_cone(rho)\<close>,
  \<^verbatim>\<open>degrees = sigma.rays().matrix().solve_left(phi(ray))\<close> and the pairs
  \<^verbatim>\<open>zip(sigma.ambient_ray_indices(), degrees)\<close> that the inner loop runs over.
\<close>

definition solved_degrees :: "library \<Rightarrow> fan_morphism \<Rightarrow> cone \<Rightarrow> error + (nat \<times> rat) list" where
  "solved_degrees L phi rho =
     (case ray0 rho of
        Inl e \<Rightarrow> Inl e
      | Inr ray \<Rightarrow>
          (let sigma = image_cone L phi rho in
           case solve_left L (cone_rays sigma) (vec_mat ray (fm_matrix phi)) of
             Inl e \<Rightarrow> Inl e
           | Inr degrees \<Rightarrow> Inr (zip (ambient_ray_indices sigma) degrees)))"

text \<open>
  The inner loop, for the generator \<open>x\<close> with index \<open>k\<close> of the \<open>n\<close> generators:
  \<^verbatim>\<open>d = ZZ(d)\<close> fails on a rational that is not an integer, and the handler raises the
  error of the module; then \<^verbatim>\<open>polys[i] *= x**d\<close>.
\<close>

fun degrees_loop :: "nat \<Rightarrow> nat \<Rightarrow> poly list \<Rightarrow> (nat \<times> rat) list \<Rightarrow> error + poly list" where
  "degrees_loop n k polys [] = Inr polys"
| "degrees_loop n k polys ((i, d) # rest) =
     (if rat_of_int \<lfloor>d\<rfloor> \<noteq> d then Inl (TypeError cannot_be_written)
      else if \<not> i < length polys then Inl IndexError
      else degrees_loop n k (polys[i := poly_mul (polys ! i) (gen_pow n k \<lfloor>d\<rfloor>)]) rest)"

text \<open>The outer loop \<^verbatim>\<open>for rho, x in zip(phi.domain_fan(1), R.gens())\<close>.\<close>

fun rays_loop ::
    "library \<Rightarrow> fan_morphism \<Rightarrow> nat \<Rightarrow> poly list \<Rightarrow> (cone \<times> nat) list \<Rightarrow> error + poly list" where
  "rays_loop L phi n polys [] = Inr polys"
| "rays_loop L phi n polys ((rho, k) # rest) =
     (case solved_degrees L phi rho of
        Inl e \<Rightarrow> Inl e
      | Inr ids \<Rightarrow>
          (case degrees_loop n k polys ids of
             Inl e \<Rightarrow> Inl e
           | Inr polys' \<Rightarrow> rays_loop L phi n polys' rest))"

text \<open>
  \<^verbatim>\<open>as_polynomial_map(self)\<close>. The coordinate ring \<open>R\<close> of the domain has one generator
  for each ray of the fan of the domain.
\<close>

definition as_polynomial_map ::
    "library \<Rightarrow> (int list \<Rightarrow> 'g) \<Rightarrow> fan_toric_morphism \<Rightarrow> error + polynomial_toric_morphism" where
  "as_polynomial_map L deg self =
     (let n = nrays (tv_fan (domain self));
          phi = fan_morphism self;
          polys = replicate (nrays (codomain_fan phi)) (poly_one n)
      in case rays_loop L phi n polys (zip (one_cones (domain_fan phi)) [0 ..< n]) of
           Inl e \<Rightarrow> Inl e
         | Inr polys' \<Rightarrow> SchemeMorphism_polynomial_toric_variety deg (parent self) polys' True)"




subsection \<open>Factorization and composition\<close>

text \<open>
  \<^verbatim>\<open>X.hom(fm, Y)\<close> makes the element of the Hom-set of \<open>X\<close> and \<open>Y\<close> from the fan
  morphism, with the check of the constructor.
\<close>

definition hom :: "toric_variety \<Rightarrow> fan_morphism \<Rightarrow> toric_variety \<Rightarrow> error + fan_toric_morphism" where
  "hom X fm Y = SchemeMorphism_fan_toric_variety (Hom X Y) fm True"

text \<open>\<^verbatim>\<open>factor(self)\<close>; the three morphisms are made from left to right.\<close>

definition factor ::
    "library \<Rightarrow> fan_toric_morphism
      \<Rightarrow> error + fan_toric_morphism \<times> fan_toric_morphism \<times> fan_toric_morphism" where
  "factor L self =
     (case fm_factor L (fan_morphism self) of (phi_i, phi_b, phi_s) \<Rightarrow>
        let X = domain self;
            X_s = ToricVariety (codomain_fan phi_s);
            X_i = ToricVariety (domain_fan phi_i);
            X_prime = codomain self
        in case hom X_i phi_i X_prime of
             Inl e \<Rightarrow> Inl e
           | Inr a \<Rightarrow>
               (case hom X_s phi_b X_i of
                  Inl e \<Rightarrow> Inl e
                | Inr b \<Rightarrow>
                    (case hom X phi_s X_s of
                       Inl e \<Rightarrow> Inl e
                     | Inr c \<Rightarrow> Inr (a, b, c))))"

definition is_injective :: "library \<Rightarrow> fan_toric_morphism \<Rightarrow> bool" where
  "is_injective L self = fm_is_injective L (fan_morphism self)"

definition is_surjective :: "library \<Rightarrow> fan_toric_morphism \<Rightarrow> bool" where
  "is_surjective L self = fm_is_surjective L (fan_morphism self)"

text \<open>
  Modelled from the spec: the composition of fan morphisms, which is outside the sources.
  A fan morphism is an integer matrix with its two fans, acting on row vectors, so the
  composition \<open>self * right\<close> (first \<open>right\<close>, then \<open>self\<close>) has the product of the matrix
  of \<open>right\<close> with that of \<open>self\<close>, the domain fan of \<open>right\<close> and the codomain fan of
  \<open>self\<close>.
\<close>

definition mat_mul :: "matrix \<Rightarrow> matrix \<Rightarrow> matrix" where
  "mat_mul a b = map (\<lambda>row. vec_mat row b) a"

definition fan_morphism_mul :: "fan_morphism \<Rightarrow> fan_morphism \<Rightarrow> fan_morphism" where
  "fan_morphism_mul self right =
     \<lparr>fm_matrix = mat_mul (fm_matrix right) (fm_matrix self),
      domain_fan = domain_fan right,
      codomain_fan = codomain_fan self\<rparr>"

text \<open>
  \<^verbatim>\<open>_composition_(self, right, homset)\<close>, with the Hom-set that the product of two maps
  passes: from the domain of \<open>right\<close> to the codomain of \<open>self\<close>.
\<close>

definition composition :: "fan_toric_morphism \<Rightarrow> fan_toric_morphism \<Rightarrow> error + fan_toric_morphism" where
  "composition self right =
     (let f = fan_morphism_mul (fan_morphism self) (fan_morphism right)
      in SchemeMorphism_fan_toric_variety (Hom (domain right) (codomain self)) f True)"

text \<open>\<^verbatim>\<open>prod\<close> of a triple multiplies from the left.\<close>

definition prod3 ::
    "fan_toric_morphism \<times> fan_toric_morphism \<times> fan_toric_morphism \<Rightarrow> error + fan_toric_morphism" where
  "prod3 t =
     (case t of (a, b, c) \<Rightarrow>
        (case composition a b of Inl e \<Rightarrow> Inl e | Inr ab \<Rightarrow> composition ab c))"

text \<open>
  Modelled from the spec: what the factorization of a fan morphism, which is outside the
  sources, returns. The spec has a fan morphism support factorization into surjective,
  birational and injective pieces; the pieces are composable and compose to the morphism.
\<close>

definition factorization :: "library \<Rightarrow> fan_morphism \<Rightarrow> bool" where
  "factorization L phi =
     (case fm_factor L phi of (phi_i, phi_b, phi_s) \<Rightarrow>
        fm_is_injective L phi_i \<and> fm_is_birational L phi_b \<and> fm_is_surjective L phi_s \<and>
        codomain_fan phi_s = domain_fan phi_b \<and> codomain_fan phi_b = domain_fan phi_i \<and>
        fan_morphism_mul (fan_morphism_mul phi_i phi_b) phi_s = phi)"

subsection \<open>Fibers\<close>




text \<open>\<^verbatim>\<open>xs.index(x)\<close> raises a value error when \<open>x\<close> is not in \<open>xs\<close>.\<close>

fun index_of :: "'a list \<Rightarrow> 'a \<Rightarrow> error + nat" where
  "index_of [] x = Inl (ValueError ''is not in list'')"
| "index_of (y # ys) x =
     (if x = y then Inr 0
      else (case index_of ys x of Inl e \<Rightarrow> Inl e | Inr i \<Rightarrow> Inr (Suc i)))"

text \<open>A list built by a loop whose body may raise: the first error ends it.\<close>

fun collect :: "(error + 'a) list \<Rightarrow> error + 'a list" where
  "collect [] = Inr []"
| "collect (r # rs) =
     (case r of
        Inl e \<Rightarrow> Inl e
      | Inr x \<Rightarrow> (case collect rs of Inl e \<Rightarrow> Inl e | Inr xs \<Rightarrow> Inr (x # xs)))"



text \<open>
  \<^verbatim>\<open>_make_fiber(self)\<close>: the cones of the relative star of the defining cone are projected
  and generate the fan of the fiber; then every ray of the star is looked up in the domain
  fan and entered into the ray index map under its projection, unless the projection is
  zero, which is asserted to happen for the rays of the defining cone only. The set of the
  rays of the star is taken in the order of the cones.
\<close>

definition is_zero :: "ray \<Rightarrow> bool" where
  "is_zero v = (\<forall>x \<in> set v. x = 0)"






subsection \<open>The fiber graph\<close>










section \<open>Examples from the documentation of the module\<close>

text \<open>
  The fans of the varieties that the documentation of the module uses, and a library that
  gives the answers of the lattice and fan library on them.
\<close>

definition ray_cone :: "fan \<Rightarrow> nat \<Rightarrow> cone" where
  "ray_cone F k = \<lparr>cone_rays = [rays F ! k], ambient_ray_indices = [k]\<rparr>"

definition fan_of :: "ray list \<Rightarrow> nat list list \<Rightarrow> fan" where
  "fan_of rs cones =
     \<lparr>rays = rs,
      generating_cones = map (\<lambda>c. \<lparr>cone_rays = map (\<lambda>i. rs ! i) c, ambient_ray_indices = c\<rparr>) cones\<rparr>"

definition A1_fan :: fan where
  "A1_fan = fan_of [[1]] [[0]]"

definition A2_fan :: fan where
  "A2_fan = fan_of [[1, 0], [0, 1]] [[0, 1]]"

definition A2_Z2_fan :: fan where
  "A2_Z2_fan = fan_of [[1, 0], [1, 2]] [[0, 1]]"

definition O2_P1_fan :: fan where
  "O2_P1_fan = fan_of [[1, 0], [1, 2], [1, 1]] [[0, 2], [1, 2]]"



definition P3_fan :: fan where
  "P3_fan = fan_of [[1, 0, 0], [0, 1, 0], [0, 0, 1], [- 1, - 1, - 1]]
                   [[0, 1, 2], [0, 1, 3], [0, 2, 3], [1, 2, 3]]"

text \<open>The affine plane blown up twice, and the cone over a square, which is not simplicial.\<close>

definition A2_blown_up_fan :: fan where
  "A2_blown_up_fan = fan_of [[1, 0], [0, 1], [1, 1], [2, 1]] [[0, 3], [3, 2], [2, 1]]"

definition square_cone_fan :: fan where
  "square_cone_fan = fan_of [[1, 0, 1], [0, 1, 1], [- 1, 0, 1], [0, - 1, 1]] [[0, 1, 2, 3]]"

definition interior_ray_fan :: fan where
  "interior_ray_fan = fan_of [[0, - 1, 3]] [[0]]"

definition toric_hom :: "fan \<Rightarrow> matrix \<Rightarrow> fan \<Rightarrow> fan_toric_morphism" where
  "toric_hom F m G =
     \<lparr>parent = Hom (ToricVariety F) (ToricVariety G),
      the_fan_morphism = \<lparr>fm_matrix = m, domain_fan = F, codomain_fan = G\<rparr>\<rparr>"

text \<open>\<^verbatim>\<open>A1.hom(matrix([[2]]), A1)\<close> and \<^verbatim>\<open>O2_P1.hom(identity_matrix(2), A2_Z2)\<close>\<close>

definition square :: fan_toric_morphism where
  "square = toric_hom A1_fan [[2]] A1_fan"

definition blowup :: fan_toric_morphism where
  "blowup = toric_hom O2_P1_fan [[1, 0], [0, 1]] A2_Z2_fan"

text \<open>\<^verbatim>\<open>A2.hom(matrix([(2,0,0), (1,1,0)]), P3)\<close> and the fan morphisms of its factors.\<close>

definition double_cover :: fan_toric_morphism where
  "double_cover = toric_hom A2_fan [[2, 0, 0], [1, 1, 0]] P3_fan"

definition image_fan :: fan where
  "image_fan = fan_of [[1, 0], [1, 1]] [[0, 1]]"

definition plane_fan :: fan where
  "plane_fan = fan_of [[1, 0], [0, 1], [- 1, - 1]] [[0, 1], [1, 2], [0, 2]]"

definition cover_i :: fan_morphism where
  "cover_i = \<lparr>fm_matrix = [[1, 0, 0], [0, 1, 0]], domain_fan = plane_fan, codomain_fan = P3_fan\<rparr>"

definition cover_b :: fan_morphism where
  "cover_b = \<lparr>fm_matrix = [[1, 0], [0, 1]], domain_fan = image_fan, codomain_fan = plane_fan\<rparr>"

definition cover_s :: fan_morphism where
  "cover_s = \<lparr>fm_matrix = [[2, 0], [1, 1]], domain_fan = A2_fan, codomain_fan = image_fan\<rparr>"



definition interior_ray :: fan_toric_morphism where
  "interior_ray = toric_hom interior_ray_fan [[1, 0, 0], [0, 1, 0], [0, 0, 1]] square_cone_fan"

text \<open>
  The answers of the library. The image cone of a ray is the cone of the ray it is mapped to
  or, when the image is no ray of the codomain fan, the generating cone of the codomain,
  which is the only one in these examples. A system with one or two equations is solved by
  division and by Cramer's rule; for the four rays of the cone over the square the solution
  has the free fourth coordinate zero.
\<close>

definition example_image_cone :: "fan_morphism \<Rightarrow> cone \<Rightarrow> cone" where
  "example_image_cone phi rho =
     (let v = vec_mat (hd (cone_rays rho)) (fm_matrix phi)
      in case index_of (rays (codomain_fan phi)) v of
           Inr i \<Rightarrow> \<lparr>cone_rays = [v], ambient_ray_indices = [i]\<rparr>
         | Inl e \<Rightarrow> hd (generating_cones (codomain_fan phi)))"

definition example_solve_left :: "matrix \<Rightarrow> int list \<Rightarrow> error + rat list" where
  "example_solve_left m v =
     (case m of
        [r] \<Rightarrow> Inr [rat_of_int (v ! 0) / rat_of_int (r ! 0)]
      | [[a, b], [c, d]] \<Rightarrow>
          Inr [rat_of_int (v ! 0 * d - v ! 1 * c) / rat_of_int (a * d - b * c),
               rat_of_int (a * v ! 1 - b * v ! 0) / rat_of_int (a * d - b * c)]
      | _ \<Rightarrow>
          (if m = rays square_cone_fan \<and> v = [0, - 1, 3] then Inr [2, - 1, 2, 0]
           else Inl (ValueError ''matrix equation has no solutions'')))"

definition example_embed :: "fan \<Rightarrow> cone \<Rightarrow> error + cone" where
  "example_embed F c =
     (case collect (map (index_of (rays F)) (cone_rays c)) of
        Inl e \<Rightarrow> Inl e
      | Inr idx \<Rightarrow> Inr \<lparr>cone_rays = cone_rays c, ambient_ray_indices = idx\<rparr>)"

text \<open>
  For a ray \<open>(a, b)\<close> of a fan in the plane that is mapped onto the plane, the quotient of
  the lattice by the ray is of rank one with the projection \<open>(x, y) \<mapsto> b x - a y\<close>, and the
  star of the ray is generated by the generating cones that contain it. The fan generated
  by projected cones has their rays that are not zero.
\<close>

definition example_projection :: "fan_morphism \<Rightarrow> cone \<Rightarrow> cone \<Rightarrow> ray \<Rightarrow> ray" where
  "example_projection fm dc bc v =
     (let r = hd (cone_rays dc) in [r ! 1 * v ! 0 - r ! 0 * v ! 1])"

definition example_star :: "fan_morphism \<Rightarrow> cone \<Rightarrow> cone list" where
  "example_star fm dc =
     filter (\<lambda>c. set (cone_rays dc) \<subseteq> set (cone_rays c)) (generating_cones (domain_fan fm))"

definition example_Fan_of_cones :: "ray list list \<Rightarrow> fan" where
  "example_Fan_of_cones cones =
     (let rs = remdups (filter (\<lambda>v. \<not> is_zero v) (concat cones))
      in \<lparr>rays = rs,
          generating_cones =
            map (\<lambda>c. \<lparr>cone_rays = filter (\<lambda>v. \<not> is_zero v) c,
                       ambient_ray_indices =
                         map (\<lambda>v. length (takeWhile (\<lambda>w. w \<noteq> v) rs))
                             (filter (\<lambda>v. \<not> is_zero v) c)\<rparr>) cones\<rparr>)"

definition example_library :: library where
  "example_library =
     \<lparr>image_cone = example_image_cone,
      solve_left = example_solve_left,
      fm_factor = (\<lambda>phi. (cover_i, cover_b, cover_s)),
      fm_is_injective = (\<lambda>phi. phi = cover_i),
      fm_is_birational = (\<lambda>phi. phi = cover_b),
      fm_is_surjective = (\<lambda>phi. phi = cover_s),
      primitive_preimage_cones =
        (\<lambda>phi c. if ambient_ray_indices c = [0, 1]
                 then [ray_cone A2_blown_up_fan 2, ray_cone A2_blown_up_fan 3] else []),
      contains_cone = (\<lambda>F S. \<exists>c \<in> set (generating_cones F). S \<subseteq> set (cone_rays c)),
      kernel_fan = (\<lambda>phi. fan_of [[0, 1], [0, - 1]] [[0], [1]]),
      echelon_coordinates = (\<lambda>phi r. [r ! 1]),
      echelonized_basis_matrix = (\<lambda>phi. [[0, 1]]),
      embed = example_embed,
      relative_star_generators = example_star,
      fiber_projection = example_projection,
      Fan_of_cones = example_Fan_of_cones\<rparr>"

section \<open>Local frames (\<^verbatim>\<open>sage/manifolds/local_frame.py\<close>)\<close>
























section \<open>Properties of the normal form games\<close>

text \<open>
  C6. With the default algorithm "LCP", \<^verbatim>\<open>obtain_Nash\<close> raises NotImplementedError when the
  game has more than two players and otherwise returns exactly what the external solver
  computes on the game; with the algorithm "lrs" it raises NotImplementedError when the
  package lrs is not installed.
\<close>

theorem obtain_Nash_cases:
  "(length (players g) > 2 \<longrightarrow>
      obtain_Nash solve inst g None = Inl (NotImplementedError not_implemented_players)) \<and>
   (length (players g) \<le> 2 \<longrightarrow> solve g = Inr eqs \<longrightarrow>
      obtain_Nash solve inst g None = Inr (Some eqs)) \<and>
   (length (players g) \<le> 2 \<longrightarrow> solve g = Inl e \<longrightarrow>
      obtain_Nash solve inst g None = Inl e) \<and>
   obtain_Nash solve inst g (Some ''LCP'') = obtain_Nash solve inst g None \<and>
   (\<not> inst ''lrs'' \<longrightarrow>
      obtain_Nash solve inst g (Some ''lrs'') = Inl (NotImplementedError ''lrs is not installed''))"
  by (simp add: obtain_Nash_def)

theorem obtain_Nash_cases_witness:
  "length (players (new_table [2, 2, 2])) > 2 \<and>
   obtain_Nash (\<lambda>g. Inr [dims g]) (\<lambda>p. False) (new_table [2, 2, 2]) None
     = Inl (NotImplementedError not_implemented_players) \<and>
   length (players (new_table [2, 2])) \<le> 2 \<and>
   obtain_Nash (\<lambda>g. Inr [dims g]) (\<lambda>p. False) (new_table [2, 2]) None = Inr (Some [[2, 2]]) \<and>
   obtain_Nash (\<lambda>g. Inr [dims g]) (\<lambda>p. False) (new_table [2, 2]) (Some ''lrs'')
     = Inl (NotImplementedError ''lrs is not installed'')"
  using obtain_Nash_cases [of "new_table [2, 2, 2]" "\<lambda>g. Inr [dims g]" "\<lambda>p. False" "[[2, 2]]" IndexError]
        obtain_Nash_cases [of "new_table [2, 2]" "\<lambda>g. Inr [dims g]" "\<lambda>p. False" "[[2, 2]]" IndexError]
  by (simp add: players_def new_table_def)

text \<open>
  C9 at the input \<^verbatim>\<open>NormalFormGame(matrix1=matrix([[1, 2], [3, 4]]))\<close>: the constructor
  stops in \<^verbatim>\<open>__new__\<close> with an attribute error, and no game is made.
\<close>

theorem NormalFormGame_only_matrix1_fails:
  "NormalFormGame (Some [[1, 2], [3, 4]]) None None
     = Inl (AttributeError ''bool object has no attribute rows'')"
  by (simp add: NormalFormGame_def NormalFormGame_new_def truthy_def matrix_nonzero_def)

text \<open>
  On a table that exists, \<^verbatim>\<open>__init__\<close> does what the documentation of the class says:
  the second matrix is the negative of the first and the payoffs of every cell sum to zero.
\<close>

lemma NormalFormGame_init_negates:
  "\<exists>g. NormalFormGame_init (new_table [2, 2]) (Some [[1, 2], [3, 4]]) None None = Inr g \<and>
       matrix2 g = Some [[- 1, - 2], [- 3, - 4]] \<and>
       payoff g (0, 0) 0 + payoff g (0, 0) 1 = 0 \<and> payoff g (0, 1) 0 + payoff g (0, 1) 1 = 0 \<and>
       payoff g (1, 0) 0 + payoff g (1, 0) 1 = 0 \<and> payoff g (1, 1) 0 + payoff g (1, 1) 1 = 0"
  by (simp add: NormalFormGame_init_def truthy_def matrix_nonzero_def neg_matrix_def new_table_def
        nrows_def ncolumns_def List.product.simps upt_rec fill_cell_def entry_def set_payoff_def
        in_table_def Let_def)

text \<open>
  The same holds for every first matrix that is true, that is, has an entry that is not zero.
\<close>

lemma NormalFormGame_new_needs_matrix2:
  "truthy m1 \<Longrightarrow> NormalFormGame m1 None None = Inl (AttributeError ''bool object has no attribute rows'')"
  by (simp add: NormalFormGame_def NormalFormGame_new_def)

section \<open>Properties of the toric morphisms\<close>

subsection \<open>The documented examples\<close>

lemmas ex_defs = example_library_def example_image_cone_def example_solve_left_def
  square_def blowup_def interior_ray_def toric_hom_def fan_of_def A1_fan_def A2_Z2_fan_def O2_P1_fan_def
  square_cone_fan_def interior_ray_fan_def
  Hom_def ToricVariety_def domain_def codomain_def nrays_def fan_morphism_def
  one_cones_def solved_degrees_def ray0_def vec_mat_def ncolumns_def

lemma sq_cones: "one_cones (domain_fan (fan_morphism square)) = [\<lparr>cone_rays = [[1]], ambient_ray_indices = [0]\<rparr>]"
  by (simp add: ex_defs)

lemma sq_deg: "solved_degrees example_library (fan_morphism square) \<lparr>cone_rays = [[1]], ambient_ray_indices = [0]\<rparr> = Inr [(0, 2)]"
  by (simp add: ex_defs)











subsection \<open>The constructor\<close>

text \<open>
  C10. Constructed with \<^verbatim>\<open>check=True\<close>, the fan-based toric morphism raises ValueError
  if and only if the domain fan of the fan morphism differs from the fan of the domain
  variety or its codomain fan differs from the fan of the codomain variety. On success
  (with or without the check) the stored fan morphism is the one passed in, and
  \<^verbatim>\<open>fan_morphism()\<close> returns it unchanged.
\<close>

theorem fan_toric_init_check:
  "(is_ValueError (SchemeMorphism_fan_toric_variety par fm True) \<longleftrightarrow>
      (tv_fan (hom_domain par) \<noteq> domain_fan fm \<or> tv_fan (hom_codomain par) \<noteq> codomain_fan fm)) \<and>
   (\<forall>e. SchemeMorphism_fan_toric_variety par fm True = Inl e \<longrightarrow> (\<exists>m. e = ValueError m)) \<and>
   (\<forall>f. SchemeMorphism_fan_toric_variety par fm check = Inr f \<longrightarrow>
      fan_morphism f = fm \<and> parent f = par)"
  by (auto simp: SchemeMorphism_fan_toric_variety_def is_ValueError_def fan_morphism_def)

theorem fan_toric_init_check_witness:
  "tv_fan (hom_domain (parent square)) = domain_fan (fan_morphism square) \<and>
   tv_fan (hom_codomain (parent square)) = codomain_fan (fan_morphism square) \<and>
   \<not> is_ValueError (SchemeMorphism_fan_toric_variety (parent square) (fan_morphism square) True) \<and>
   (\<exists>f. SchemeMorphism_fan_toric_variety (parent square) (fan_morphism square) True = Inr f \<and>
        fan_morphism f = fan_morphism square) \<and>
   tv_fan (hom_domain (parent square)) \<noteq> domain_fan (fan_morphism blowup) \<and>
   is_ValueError (SchemeMorphism_fan_toric_variety (parent square) (fan_morphism blowup) True)"
proof -
  have a: "tv_fan (hom_domain (parent square)) = domain_fan (fan_morphism square)"
    "tv_fan (hom_codomain (parent square)) = codomain_fan (fan_morphism square)"
    by (simp_all add: ex_defs)
  have b: "tv_fan (hom_domain (parent square)) \<noteq> domain_fan (fan_morphism blowup)"
    by (simp add: ex_defs)
  have c: "SchemeMorphism_fan_toric_variety (parent square) (fan_morphism square) True
             = Inr \<lparr>parent = parent square, the_fan_morphism = fan_morphism square\<rparr>"
    using a by (simp add: SchemeMorphism_fan_toric_variety_def)
  from fan_toric_init_check [of "parent square" "fan_morphism square" True]
       fan_toric_init_check [of "parent square" "fan_morphism blowup" True] a b c
  show ?thesis by blast
qed

subsection \<open>The loops of \<^verbatim>\<open>as_polynomial_map\<close>\<close>














subsection \<open>No conversion to the fan representation\<close>

text \<open>
  C3, as amended. \<^verbatim>\<open>as_fan_morphism\<close> of a polynomial toric morphism raises
  NotImplementedError on every morphism: the conversion from the polynomial to the fan
  representation is not supported, also for a morphism that coincides with a fan-defined one.
\<close>

theorem as_fan_morphism_not_implemented:
  "as_fan_morphism p =
     Inl (NotImplementedError ''expressing toric morphisms as fan morphisms is not implemented yet!'')"
  by (simp add: as_fan_morphism_def)

text \<open>
  C3 as stated fails on the polynomial map \<open>z \<mapsto> z\<^sup>2\<close> of the affine line, which
  \<^verbatim>\<open>as_polynomial_map\<close> returns for the fan morphism with the matrix \<open>(2)\<close>: it coincides
  with a fan-defined morphism, and \<^verbatim>\<open>as_fan_morphism\<close> fails on it.
\<close>

theorem as_fan_morphism_square_fails:
  "as_polynomial_map example_library sum_list square =
     Inr \<lparr>poly_parent = parent square, defining_polynomials = [[(1, [2])]]\<rparr> \<and>
   as_fan_morphism \<lparr>poly_parent = parent square, defining_polynomials = [[(1, [2])]]\<rparr> =
     Inl (NotImplementedError ''expressing toric morphisms as fan morphisms is not implemented yet!'')"
proof -
  have n: "nrays (tv_fan (domain square)) = 1" "nrays (codomain_fan (fan_morphism square)) = 1"
    by (simp_all add: ex_defs)
  have l: "rays_loop example_library (fan_morphism square) 1 (replicate 1 (poly_one 1))
             (zip (one_cones (domain_fan (fan_morphism square))) [0 ..< 1]) = Inr [[(1, [2])]]"
    unfolding sq_cones by (simp add: sq_deg poly_one_def gen_pow_def poly_mul_def)
  have h: "\<forall>p \<in> set [[(1, [2::int])]]. is_homogeneous sum_list p"
    by (simp add: is_homogeneous_def)
  have "as_polynomial_map example_library sum_list square =
     Inr \<lparr>poly_parent = parent square, defining_polynomials = [[(1, [2])]]\<rparr>"
    unfolding as_polynomial_map_def Let_def n l
    using h by (simp add: SchemeMorphism_polynomial_toric_variety_def)
  then show ?thesis by (simp add: as_fan_morphism_def)
qed

subsection \<open>Comparison is structural\<close>

lemma cmp_int_eq: "cmp_int a b = 0 \<longleftrightarrow> a = b"
  by (simp add: cmp_int_def)

lemma cmp_nat_eq: "cmp_nat a b = 0 \<longleftrightarrow> a = b"
  by (simp add: cmp_nat_def cmp_int_eq)

lemma cmp_then_eq: "cmp_then c d = 0 \<longleftrightarrow> c = 0 \<and> d = 0"
  by (simp add: cmp_then_def)

lemma cmp_list_eq:
  assumes "\<And>x y. c x y = 0 \<longleftrightarrow> x = y"
  shows "cmp_list c xs ys = 0 \<longleftrightarrow> xs = ys"
proof (induction xs arbitrary: ys)
  case Nil
  show ?case by (cases ys) simp_all
next
  case (Cons x xs)
  show ?case
  proof (cases ys)
    case Nil
    then show ?thesis by simp
  next
    case (Cons y zs)
    have k: "c x y = 0 \<longleftrightarrow> x = y" by (rule assms)
    show ?thesis
    proof (cases "x = y")
      case True
      with k have "c x y = 0" by blast
      with Cons.IH [of zs] Cons True show ?thesis by simp
    next
      case False
      with k have "c x y \<noteq> 0" by blast
      with False Cons show ?thesis by simp
    qed
  qed
qed

lemma cmp_matrix_eq: "cmp_matrix a b = 0 \<longleftrightarrow> a = b"
  unfolding cmp_matrix_def by (intro cmp_list_eq cmp_int_eq)

lemma cmp_cone_eq: "cmp_cone c d = 0 \<longleftrightarrow> c = d"
  by (cases c, cases d) (simp add: cmp_cone_def cmp_then_eq cmp_matrix_eq cmp_list_eq [OF cmp_nat_eq])

lemma cmp_fan_eq: "cmp_fan F G = 0 \<longleftrightarrow> F = G"
  by (cases F, cases G) (simp add: cmp_fan_def cmp_then_eq cmp_matrix_eq cmp_list_eq [OF cmp_cone_eq])

lemma cmp_fan_morphism_eq: "cmp_fan_morphism f g = 0 \<longleftrightarrow> f = g"
  by (cases f, cases g) (auto simp: cmp_fan_morphism_def cmp_then_eq cmp_matrix_eq cmp_fan_eq)

lemma cmp_variety_eq: "cmp_variety X Y = 0 \<longleftrightarrow> X = Y"
  by (cases X, cases Y) (simp add: cmp_variety_def cmp_fan_eq)

lemma fan_toric_cmp_self: "fan_toric_cmp addr f (Fan_toric_object f) = 0"
  by (simp add: fan_toric_cmp_def cmp_then_eq cmp_variety_eq cmp_fan_morphism_eq)

text \<open>
  C4. The comparison of a fan-based toric morphism with another one yields 0 if and only
  if both have the same domain variety, the same codomain variety and equal fan morphisms
  (the same matrix and the same fans), that is, if and only if they are structurally equal;
  the comparison with a value that is not a fan-based toric morphism never yields 0.
\<close>

theorem fan_toric_cmp_structural:
  "(fan_toric_cmp addr f (Fan_toric_object g) = 0 \<longleftrightarrow>
      domain f = domain g \<and> codomain f = codomain g \<and>
      fm_matrix (fan_morphism f) = fm_matrix (fan_morphism g) \<and>
      domain_fan (fan_morphism f) = domain_fan (fan_morphism g) \<and>
      codomain_fan (fan_morphism f) = codomain_fan (fan_morphism g)) \<and>
   (fan_toric_cmp addr f (Fan_toric_object g) = 0 \<longleftrightarrow> f = g) \<and>
   fan_toric_cmp addr f (Other_object k) \<noteq> 0"
proof (intro conjI)
  have fm: "fan_morphism f = fan_morphism g \<longleftrightarrow>
      fm_matrix (fan_morphism f) = fm_matrix (fan_morphism g) \<and>
      domain_fan (fan_morphism f) = domain_fan (fan_morphism g) \<and>
      codomain_fan (fan_morphism f) = codomain_fan (fan_morphism g)"
    by (cases "fan_morphism f", cases "fan_morphism g") simp
  have c: "fan_toric_cmp addr f (Fan_toric_object g) = 0 \<longleftrightarrow>
      domain f = domain g \<and> codomain f = codomain g \<and> fan_morphism f = fan_morphism g"
    by (simp add: fan_toric_cmp_def cmp_then_eq cmp_variety_eq cmp_fan_morphism_eq)
  show "fan_toric_cmp addr f (Fan_toric_object g) = 0 \<longleftrightarrow>
      domain f = domain g \<and> codomain f = codomain g \<and>
      fm_matrix (fan_morphism f) = fm_matrix (fan_morphism g) \<and>
      domain_fan (fan_morphism f) = domain_fan (fan_morphism g) \<and>
      codomain_fan (fan_morphism f) = codomain_fan (fan_morphism g)"
    using c fm by simp
  have h: "parent f = parent g \<longleftrightarrow> domain f = domain g \<and> codomain f = codomain g"
    by (cases "parent f", cases "parent g") (simp add: domain_def codomain_def)
  have "f = g \<longleftrightarrow> parent f = parent g \<and> fan_morphism f = fan_morphism g"
    by (cases f, cases g) (simp add: fan_morphism_def)
  with c h show "fan_toric_cmp addr f (Fan_toric_object g) = 0 \<longleftrightarrow> f = g" by simp
  show "fan_toric_cmp addr f (Other_object k) \<noteq> 0"
    by (simp add: fan_toric_cmp_def cmp_type_def)
qed

theorem fan_toric_cmp_structural_witness:
  "fan_toric_cmp (\<lambda>c. 0) square (Fan_toric_object square) = 0 \<and>
   fan_toric_cmp (\<lambda>c. 0) square (Fan_toric_object blowup) \<noteq> 0 \<and>
   square \<noteq> blowup \<and>
   fan_toric_cmp (\<lambda>c. 0) square (Other_object 1) \<noteq> 0"
proof -
  have m: "fm_matrix (fan_morphism square) \<noteq> fm_matrix (fan_morphism blowup)"
    by (simp add: ex_defs)
  then have n: "square \<noteq> blowup" by auto
  from fan_toric_cmp_structural [of "\<lambda>c. 0" square square 1]
  have a: "fan_toric_cmp (\<lambda>c. 0) square (Fan_toric_object square) = 0"
    and c: "fan_toric_cmp (\<lambda>c. 0) square (Other_object 1) \<noteq> 0" by simp_all
  from fan_toric_cmp_structural [of "\<lambda>c. 0" square blowup 1] n
  have b: "fan_toric_cmp (\<lambda>c. 0) square (Fan_toric_object blowup) \<noteq> 0" by blast
  from a b c n show ?thesis by blast
qed

subsection \<open>Factorization\<close>

text \<open>
  C2. Let the fans of the domain and of the codomain of \<open>phi\<close> be the fans of its fan
  morphism, and let the library factor the fan morphism into injective, birational and
  surjective pieces that compose to it. Then \<^verbatim>\<open>phi.factor()\<close> returns a triple of fan-based
  toric morphisms \<open>(phi_i, phi_b, phi_s)\<close> with \<open>phi_s\<close> surjective, \<open>phi_b\<close> birational
  and \<open>phi_i\<close> injective, composable in this order, whose product is \<open>phi\<close>; the product
  compares equal to \<open>phi\<close>.
\<close>

theorem factor_composes:
  assumes dom: "tv_fan (domain self) = domain_fan (fan_morphism self)"
    and cod: "tv_fan (codomain self) = codomain_fan (fan_morphism self)"
    and fact: "factorization L (fan_morphism self)"
  shows "\<exists>phi_i phi_b phi_s.
           factor L self = Inr (phi_i, phi_b, phi_s) \<and>
           is_surjective L phi_s \<and> fm_is_birational L (fan_morphism phi_b) \<and>
           is_injective L phi_i \<and>
           domain phi_s = domain self \<and> codomain phi_s = domain phi_b \<and>
           codomain phi_b = domain phi_i \<and> codomain phi_i = codomain self \<and>
           prod3 (phi_i, phi_b, phi_s) = Inr self \<and>
           fan_toric_cmp addr self (Fan_toric_object self) = 0"
proof -
  let ?phi = "fan_morphism self"
  obtain i b s where f: "fm_factor L ?phi = (i, b, s)" by (cases "fm_factor L ?phi")
  from fact f have
    inj: "fm_is_injective L i" and bir: "fm_is_birational L b" and sur: "fm_is_surjective L s" and
    sb: "codomain_fan s = domain_fan b" and bi: "codomain_fan b = domain_fan i" and
    mul: "fan_morphism_mul (fan_morphism_mul i b) s = ?phi"
    by (simp_all add: factorization_def)
  from arg_cong [OF mul, of domain_fan] have ds: "domain_fan s = domain_fan ?phi"
    by (simp add: fan_morphism_mul_def)
  from arg_cong [OF mul, of codomain_fan] have ci: "codomain_fan i = codomain_fan ?phi"
    by (simp add: fan_morphism_mul_def)
  let ?X = "domain self" and ?X' = "codomain self"
  let ?Xs = "ToricVariety (codomain_fan s)" and ?Xi = "ToricVariety (domain_fan i)"
  define ti where "ti = \<lparr>parent = Hom ?Xi ?X', the_fan_morphism = i\<rparr>"
  define tb where "tb = \<lparr>parent = Hom ?Xs ?Xi, the_fan_morphism = b\<rparr>"
  define ts where "ts = \<lparr>parent = Hom ?X ?Xs, the_fan_morphism = s\<rparr>"
  have hi: "hom ?Xi i ?X' = Inr ti"
    using ci cod by (simp add: hom_def SchemeMorphism_fan_toric_variety_def Hom_def ToricVariety_def ti_def)
  have hb: "hom ?Xs b ?Xi = Inr tb"
    using sb bi by (simp add: hom_def SchemeMorphism_fan_toric_variety_def Hom_def ToricVariety_def tb_def)
  have hs: "hom ?X s ?Xs = Inr ts"
    using ds dom by (simp add: hom_def SchemeMorphism_fan_toric_variety_def Hom_def ToricVariety_def ts_def)
  have fac: "factor L self = Inr (ti, tb, ts)"
    using f hi hb hs by (simp add: factor_def Let_def)
  define tib where "tib = \<lparr>parent = Hom ?Xs ?X', the_fan_morphism = fan_morphism_mul i b\<rparr>"
  have c1: "composition ti tb = Inr tib"
    using sb ci cod
    by (simp add: composition_def SchemeMorphism_fan_toric_variety_def Hom_def ToricVariety_def
          ti_def tb_def tib_def domain_def codomain_def fan_morphism_def fan_morphism_mul_def)
  have self: "self = \<lparr>parent = Hom ?X ?X', the_fan_morphism = ?phi\<rparr>"
    by (cases self, cases "parent self") (simp add: Hom_def domain_def codomain_def fan_morphism_def)
  have "composition tib ts = Inr \<lparr>parent = Hom ?X ?X', the_fan_morphism = ?phi\<rparr>"
    using mul dom cod
    by (simp add: composition_def SchemeMorphism_fan_toric_variety_def Hom_def
          ts_def tib_def domain_def codomain_def fan_morphism_def)
  with self have c2: "composition tib ts = Inr self" by simp
  have pr: "prod3 (ti, tb, ts) = Inr self"
    using c1 c2 by (simp add: prod3_def)
  have eq: "fan_toric_cmp addr self (Fan_toric_object self) = 0"
    using fan_toric_cmp_self [of addr self] .
  have props: "is_surjective L ts" "fm_is_birational L (fan_morphism tb)" "is_injective L ti"
    using inj bir sur by (simp_all add: is_surjective_def is_injective_def fan_morphism_def ti_def tb_def ts_def)
  have ends: "domain ts = domain self" "codomain ts = domain tb" "codomain tb = domain ti"
    "codomain ti = codomain self"
    by (simp_all add: domain_def codomain_def Hom_def ti_def tb_def ts_def)
  from fac props ends pr eq show ?thesis by blast
qed

lemmas cover_defs = double_cover_def cover_i_def cover_b_def cover_s_def A2_fan_def P3_fan_def
  image_fan_def plane_fan_def

theorem factor_composes_witness:
  "tv_fan (domain double_cover) = domain_fan (fan_morphism double_cover) \<and>
   tv_fan (codomain double_cover) = codomain_fan (fan_morphism double_cover) \<and>
   factorization example_library (fan_morphism double_cover) \<and>
   factor example_library double_cover =
     Inr (toric_hom plane_fan [[1, 0, 0], [0, 1, 0]] P3_fan,
          toric_hom image_fan [[1, 0], [0, 1]] plane_fan,
          toric_hom A2_fan [[2, 0], [1, 1]] image_fan) \<and>
   is_surjective example_library (toric_hom A2_fan [[2, 0], [1, 1]] image_fan) \<and>
   is_injective example_library (toric_hom plane_fan [[1, 0, 0], [0, 1, 0]] P3_fan) \<and>
   prod3 (toric_hom plane_fan [[1, 0, 0], [0, 1, 0]] P3_fan,
          toric_hom image_fan [[1, 0], [0, 1]] plane_fan,
          toric_hom A2_fan [[2, 0], [1, 1]] image_fan) = Inr double_cover"
proof -
  have d: "tv_fan (domain double_cover) = domain_fan (fan_morphism double_cover)"
    and c: "tv_fan (codomain double_cover) = codomain_fan (fan_morphism double_cover)"
    by (simp_all add: double_cover_def toric_hom_def domain_def codomain_def Hom_def
          ToricVariety_def fan_morphism_def)
  have m: "fan_morphism_mul (fan_morphism_mul cover_i cover_b) cover_s = fan_morphism double_cover"
    by (simp add: fan_morphism_mul_def mat_mul_def vec_mat_def ncolumns_def cover_i_def cover_b_def
          cover_s_def double_cover_def toric_hom_def fan_morphism_def)
  have f: "factorization example_library (fan_morphism double_cover)"
    unfolding factorization_def using m
    by (simp add: example_library_def) (simp add: cover_i_def cover_b_def cover_s_def)
  have t: "factor example_library double_cover =
     Inr (toric_hom plane_fan [[1, 0, 0], [0, 1, 0]] P3_fan,
          toric_hom image_fan [[1, 0], [0, 1]] plane_fan,
          toric_hom A2_fan [[2, 0], [1, 1]] image_fan)"
    by (simp add: factor_def Let_def example_library_def hom_def SchemeMorphism_fan_toric_variety_def
          Hom_def ToricVariety_def toric_hom_def domain_def codomain_def fan_morphism_def
          cover_i_def cover_b_def cover_s_def double_cover_def)
  from factor_composes [OF d c f, of "\<lambda>c. 0"] t d c f show ?thesis by auto
qed

subsection \<open>The generic fiber\<close>




subsection \<open>The fiber graph\<close>











section \<open>Properties of the local frames\<close>













































end
